theory Spec2Isabelle
  imports Complex_Main "HOL-Library.Multiset" "HOL-Library.Sublist"
begin

section \<open>The Vertex AI adapter of langfun (langfun/core/llms/vertexai.py)\<close>

text \<open>
  A shallow embedding of the adapter. Python objects become records, exceptions become
  the left injection of a sum, and every effect the adapter has on anything outside its
  own arguments (the provider SDK's global state, the module-level model hub, the
  requests sent to the provider, the calls of the concurrency executor) is a field of
  the record \<open>world\<close>, passed in and returned.
\<close>

subsection \<open>The model registry\<close>

record model_setting =
  api :: string
  rpm :: int

text \<open>The dictionary literal of lines 26-34, in the order it is written.\<close>

definition SUPPORTED_MODELS_AND_SETTINGS :: "(string \<times> model_setting) list" where
  "SUPPORTED_MODELS_AND_SETTINGS =
    [(''gemini-1.5-pro-preview-0409'', \<lparr>api = ''gemini'', rpm = 5\<rparr>),
     (''gemini-1.0-pro'', \<lparr>api = ''gemini'', rpm = 300\<rparr>),
     (''gemini-1.0-pro-vision'', \<lparr>api = ''gemini'', rpm = 100\<rparr>),
     (''text-bison'', \<lparr>api = ''palm'', rpm = 1600\<rparr>),
     (''text-bison-32k'', \<lparr>api = ''palm'', rpm = 300\<rparr>),
     (''text-unicorn'', \<lparr>api = ''palm'', rpm = 100\<rparr>)]"

text \<open>
  \<open>list(SUPPORTED_MODELS_AND_SETTINGS.keys())\<close>: the candidates of the enumeration
  that types the field \<open>model\<close> (lines 41-44). An adapter is constructed, or rebound,
  only with a model among them.
\<close>

definition model_candidates :: "string list" where
  "model_candidates = map fst SUPPORTED_MODELS_AND_SETTINGS"

definition accepts_model :: "string \<Rightarrow> bool" where
  "accepts_model m = (m \<in> set model_candidates)"

subsection \<open>Prompts, options and errors\<close>

type_synonym bytes = string

text \<open>
  What \<open>prompt.chunk()\<close> yields: a string, an image (with the bytes \<open>to_bytes()\<close>
  gives), or an object of another modality class (its class name and bytes).
\<close>

datatype lf_chunk = Str string | LfImage bytes | Other_modality string bytes

text \<open>
  A prompt, with the two things the adapter reads of it: \<open>prompt.text\<close> and the list
  \<open>prompt.chunk()\<close> returns.
\<close>

record Message =
  message_text :: string
  chunk :: "lf_chunk list"

text \<open>The sampling options the adapter reads. The numbers are only handed on to the
  provider, never computed with.\<close>

record LMSamplingOptions =
  temperature :: "real option"
  max_tokens :: "int option"
  n :: int
  top_k :: "int option"
  top_p :: "real option"
  stop :: "string list option"

text \<open>
  The argument of a \<open>ValueError\<close>: a literal message, or one of the three formatted
  messages, kept with the value the f-string interpolates:
  \<^item> \<open>N_not_supported k\<close> for \<open>f'`n` greater than 1 is not supported: {k}.'\<close>;
  \<^item> \<open>Unsupported_modality c\<close> for \<open>f'Unsupported modality: {c!r}'\<close>;
  \<^item> \<open>Unsupported_API a\<close> for \<open>f'Unsupported API: {a}'\<close>.
\<close>

datatype message =
    Literal string
  | N_not_supported int
  | Unsupported_modality lf_chunk
  | Unsupported_API string

datatype error =
    ValueError message
  | KeyError string
  | AssertionError string
  | ProviderError string

subsection \<open>The adapter and the state around it\<close>

datatype credentials = Credentials string

text \<open>
  The fields of the class \<open>VertexAI\<close> (lines 41-78), \<open>sampling_options\<close> of its base
  class, and the entry \<open>'_api_initialized'\<close> of the instance's \<open>__dict__\<close>, where
  \<open>functools.cached_property\<close> keeps the value once the getter has returned.
\<close>

record VertexAI =
  model :: string
  project :: "string option"
  location :: "string option"
  credentials :: "credentials option"
  multimodal :: bool
  sampling_options :: LMSamplingOptions
  api_initialized_cache :: "bool option"

type_synonym environ = "string \<rightharpoonup> string"

text \<open>A client object of the SDK: its identity (the number of objects built before it)
  and the model name it was built for.\<close>

datatype handle = GenerativeModel nat string | TextGenerationModel nat string

fun handle_model :: "handle \<Rightarrow> string" where
  "handle_model (GenerativeModel i m) = m"
| "handle_model (TextGenerationModel i m) = m"

datatype content = Text string | SDK_Image bytes

record GenerationConfig =
  cfg_temperature :: "real option"
  cfg_top_p :: "real option"
  cfg_top_k :: "int option"
  cfg_max_output_tokens :: "int option"
  cfg_stop_sequences :: "string list option"

text \<open>The keyword arguments of \<open>model.predict\<close> (the dictionary of lines 215-221).\<close>

record predict_options =
  po_temperature :: "real option"
  po_top_k :: "int option"
  po_top_p :: "real option"
  po_max_output_tokens :: "int option"
  po_stop_sequences :: "string list option"

text \<open>A request sent to the provider through a handle: the network calls of the adapter.\<close>

datatype request =
    Generate_content handle "content list" GenerationConfig
  | Predict handle string predict_options

record ModelHub =
  generative_model_cache :: "string \<rightharpoonup> handle"
  text_generation_model_cache :: "string \<rightharpoonup> handle"

record executor_call =
  executor :: string
  max_workers :: int
  retry_on_errors :: "string list option"
  n_items :: nat

record world =
  vertexai_init_calls :: "(string \<times> string \<times> credentials option) list"
  VERTEXAI_MODEL_HUB :: ModelHub
  constructed :: "handle list"
  requests :: "request list"
  executor_calls :: "executor_call list"

subsection \<open>Lazy initialization (lines 80-104)\<close>

text \<open>Python's \<open>a or b\<close> and \<open>not a\<close> on values that are a string or \<open>None\<close>: \<open>None\<close>
  and the empty string are the false ones.\<close>

definition falsy :: "string option \<Rightarrow> bool" where
  "falsy a = (case a of None \<Rightarrow> True | Some s \<Rightarrow> s = [])"

definition py_or :: "string option \<Rightarrow> string option \<Rightarrow> string option" where
  "py_or a b = (if falsy a then b else a)"

definition project_message :: string where
  "project_message = ''Please specify `project` during `__init__` or set environment variable `VERTEXAI_PROJECT` with your Vertex AI project ID.''"

definition location_message :: string where
  "location_message = ''Please specify `location` during `__init__` or set environment variable `VERTEXAI_LOCATION` with your Vertex AI service location.''"

text \<open>The getter's body (lines 86-104). \<open>vertexai.init\<close> is the only call it makes on
  the SDK; the call is recorded with its three arguments.\<close>

definition api_initialized_getter ::
  "environ \<Rightarrow> VertexAI \<Rightarrow> world \<Rightarrow> (error + bool) \<times> world" where
  "api_initialized_getter env self w =
    (case py_or (project self) (env ''VERTEXAI_PROJECT'') of
       None \<Rightarrow> (Inl (ValueError (Literal project_message)), w)
     | Some p \<Rightarrow>
        if p = [] then (Inl (ValueError (Literal project_message)), w)
        else
          (case py_or (location self) (env ''VERTEXAI_LOCATION'') of
             None \<Rightarrow> (Inl (ValueError (Literal location_message)), w)
           | Some l \<Rightarrow>
              if l = [] then (Inl (ValueError (Literal location_message)), w)
              else (Inr True,
                    w\<lparr>vertexai_init_calls :=
                        vertexai_init_calls w @ [(p, l, credentials self)]\<rparr>)))"

text \<open>\<open>functools.cached_property\<close>: the value in the instance's \<open>__dict__\<close> when there
  is one; otherwise the getter runs, and what it returns is stored. An exception of the
  getter leaves \<open>__dict__\<close> as it was.\<close>

definition api_initialized ::
  "environ \<Rightarrow> VertexAI \<Rightarrow> world \<Rightarrow> (error + bool) \<times> VertexAI \<times> world" where
  "api_initialized env self w =
    (case api_initialized_cache self of
       Some v \<Rightarrow> (Inr v, self, w)
     | None \<Rightarrow>
        (case api_initialized_getter env self w of
           (Inl e, w') \<Rightarrow> (Inl e, self, w')
         | (Inr v, w') \<Rightarrow> (Inr v, self\<lparr>api_initialized_cache := Some v\<rparr>, w')))"

text \<open>\<open>_on_bound\<close> (lines 80-82) runs when the instance is bound or rebound: it drops the
  cached value.\<close>

definition on_bound :: "VertexAI \<Rightarrow> VertexAI" where
  "on_bound self = self\<lparr>api_initialized_cache := None\<rparr>"

subsection \<open>Identity and concurrency bound (lines 106-122)\<close>

definition model_id :: "VertexAI \<Rightarrow> string" where
  "model_id self = ''VertexAI('' @ model self @ '')''"

definition resource_id :: "VertexAI \<Rightarrow> string" where
  "resource_id self = model_id self"

text \<open>\<open>SUPPORTED_MODELS_AND_SETTINGS[key]\<close>: a key that is not in the dictionary raises
  \<open>KeyError\<close>.\<close>

definition registry_lookup :: "string \<Rightarrow> error + model_setting" where
  "registry_lookup key =
    (case map_of SUPPORTED_MODELS_AND_SETTINGS key of
       None \<Rightarrow> Inl (KeyError key)
     | Some s \<Rightarrow> Inr s)"

text \<open>\<open>rate_to_max_concurrency\<close> is a method of the base class \<open>lf.LanguageModel\<close>,
  which is not part of this file: it is the parameter \<open>rate_to_max_concurrency\<close> here,
  a function of the requests per minute and the tokens per minute.\<close>

definition max_concurrency :: "(int \<Rightarrow> int \<Rightarrow> int) \<Rightarrow> VertexAI \<Rightarrow> error + int" where
  "max_concurrency rate_to_max_concurrency self =
    (case registry_lookup (model self) of
       Inl e \<Rightarrow> Inl e
     | Inr s \<Rightarrow> Inr (rate_to_max_concurrency (rpm s) 0))"

text \<open>Modelled from the spec: the contract of \<open>rate_to_max_concurrency\<close> (a method of
  \<open>lf.LanguageModel\<close>, langfun/core/language_model.py, which is not among the sources).
  The spec gives no formula for it, only that from a model's requests per minute, with
  the token rate zero, it gives a positive integer.\<close>

definition rate_conversion_contract :: "(int \<Rightarrow> int \<Rightarrow> int) \<Rightarrow> bool" where
  "rate_conversion_contract rate_to_max_concurrency =
    (\<forall>r. 0 < r \<longrightarrow> 0 < rate_to_max_concurrency r 0)"

subsection \<open>Request and prompt translation (lines 124-158)\<close>

definition generation_config :: "LMSamplingOptions \<Rightarrow> GenerationConfig" where
  "generation_config options =
    \<lparr>cfg_temperature = temperature options,
     cfg_top_p = top_p options,
     cfg_top_k = top_k options,
     cfg_max_output_tokens = max_tokens options,
     cfg_stop_sequences = stop options\<rparr>"

text \<open>The body of the loop of \<open>_content_from_message\<close> (lines 144-149), for one chunk.\<close>

definition content_of_chunk :: "VertexAI \<Rightarrow> lf_chunk \<Rightarrow> error + content" where
  "content_of_chunk self lf_chunk =
    (case lf_chunk of
       Str s \<Rightarrow> Inr (Text s)
     | LfImage b \<Rightarrow>
        if multimodal self then Inr (SDK_Image b)
        else Inl (ValueError (Unsupported_modality lf_chunk))
     | Other_modality k b \<Rightarrow> Inl (ValueError (Unsupported_modality lf_chunk)))"

text \<open>The loop (lines 142-151): \<open>chunks\<close> is the list built so far; the first chunk that
  raises ends it.\<close>

fun content_loop :: "VertexAI \<Rightarrow> lf_chunk list \<Rightarrow> content list \<Rightarrow> error + content list" where
  "content_loop self [] chunks = Inr chunks"
| "content_loop self (lf_chunk # rest) chunks =
    (case content_of_chunk self lf_chunk of
       Inl e \<Rightarrow> Inl e
     | Inr c \<Rightarrow> content_loop self rest (chunks @ [c]))"

definition content_from_message :: "VertexAI \<Rightarrow> Message \<Rightarrow> error + content list" where
  "content_from_message self prompt = content_loop self (chunk prompt) []"

record UsageMetadata =
  prompt_token_count :: int
  candidates_token_count :: int
  total_token_count :: int

record GenerationResponse =
  response_text :: string
  usage_metadata :: UsageMetadata

record TextGenerationResponse =
  prediction_text :: string

datatype AIMessage = AIMessage string

definition generation_response_to_message :: "GenerationResponse \<Rightarrow> AIMessage" where
  "generation_response_to_message response = AIMessage (response_text response)"

subsection \<open>The model hub (lines 229-259)\<close>

text \<open>\<open>_ModelHub.__init__\<close>.\<close>

definition ModelHub_init :: ModelHub where
  "ModelHub_init =
    \<lparr>generative_model_cache = Map.empty, text_generation_model_cache = Map.empty\<rparr>"

text \<open>The two methods take the hub and the SDK objects built so far, and return the
  handle with both as they are after the call. A constructor of the SDK builds a new
  object: its identity is the number of objects built before it.\<close>

definition get_generative_model ::
  "ModelHub \<Rightarrow> string \<Rightarrow> handle list \<Rightarrow> handle \<times> ModelHub \<times> handle list" where
  "get_generative_model hub mid objs =
    (case generative_model_cache hub mid of
       Some m \<Rightarrow> (m, hub, objs)
     | None \<Rightarrow>
        (let m = GenerativeModel (length objs) mid
         in (m,
             hub\<lparr>generative_model_cache := (generative_model_cache hub)(mid \<mapsto> m)\<rparr>,
             objs @ [m])))"

definition get_text_generation_model ::
  "ModelHub \<Rightarrow> string \<Rightarrow> handle list \<Rightarrow> handle \<times> ModelHub \<times> handle list" where
  "get_text_generation_model hub mid objs =
    (case text_generation_model_cache hub mid of
       Some m \<Rightarrow> (m, hub, objs)
     | None \<Rightarrow>
        (let m = TextGenerationModel (length objs) mid
         in (m,
             hub\<lparr>text_generation_model_cache := (text_generation_model_cache hub)(mid \<mapsto> m)\<rparr>,
             objs @ [m])))"

subsection \<open>Sampling one prompt (lines 172-226)\<close>

record LMSamplingUsage =
  prompt_tokens :: int
  completion_tokens :: int
  total_tokens :: int

record LMSample =
  response :: AIMessage
  score :: real

record LMSamplingResult =
  samples :: "LMSample list"
  usage :: "LMSamplingUsage option"

text \<open>Modelled from the spec: the default of the field \<open>usage\<close> of \<open>lf.LMSamplingResult\<close>
  (langfun/core/language_model.py, which is not among the sources), the value the
  field has when the constructor is called without it: no usage record.\<close>

definition default_usage :: "LMSamplingUsage option" where
  "default_usage = None"

text \<open>The provider behind the SDK: what \<open>generate_content\<close> and \<open>predict\<close> answer for
  a model name and a request, a failure (the exception's text) or a response.\<close>

record sdk =
  generate_content :: "string \<Rightarrow> content list \<Rightarrow> GenerationConfig \<Rightarrow> string + GenerationResponse"
  predict :: "string \<Rightarrow> string \<Rightarrow> predict_options \<Rightarrow> string + TextGenerationResponse"

definition sample_generative_model ::
  "sdk \<Rightarrow> VertexAI \<Rightarrow> Message \<Rightarrow> world \<Rightarrow> (error + LMSamplingResult) \<times> world" where
  "sample_generative_model provider self prompt w =
    (case get_generative_model (VERTEXAI_MODEL_HUB w) (model self) (constructed w) of
       (m, hub', objs') \<Rightarrow>
        (let w1 = w\<lparr>VERTEXAI_MODEL_HUB := hub', constructed := objs'\<rparr>
         in case content_from_message self prompt of
              Inl e \<Rightarrow> (Inl e, w1)
            | Inr input_content \<Rightarrow>
               (let cfg = generation_config (sampling_options self);
                    w2 = w1\<lparr>requests := requests w1 @ [Generate_content m input_content cfg]\<rparr>
                in case generate_content provider (handle_model m) input_content cfg of
                     Inl failure \<Rightarrow> (Inl (ProviderError failure), w2)
                   | Inr r \<Rightarrow>
                      (let um = usage_metadata r;
                           u = \<lparr>prompt_tokens = prompt_token_count um,
                                completion_tokens = candidates_token_count um,
                                total_tokens = total_token_count um\<rparr>
                       in (Inr \<lparr>samples = [\<lparr>response = generation_response_to_message r,
                                              score = 0\<rparr>],
                                  usage = Some u\<rparr>, w2)))))"

definition sample_text_generation_model ::
  "sdk \<Rightarrow> VertexAI \<Rightarrow> Message \<Rightarrow> world \<Rightarrow> (error + LMSamplingResult) \<times> world" where
  "sample_text_generation_model provider self prompt w =
    (case get_text_generation_model (VERTEXAI_MODEL_HUB w) (model self) (constructed w) of
       (m, hub', objs') \<Rightarrow>
        (let w1 = w\<lparr>VERTEXAI_MODEL_HUB := hub', constructed := objs'\<rparr>;
             opts = \<lparr>po_temperature = temperature (sampling_options self),
                     po_top_k = top_k (sampling_options self),
                     po_top_p = top_p (sampling_options self),
                     po_max_output_tokens = max_tokens (sampling_options self),
                     po_stop_sequences = stop (sampling_options self)\<rparr>;
             w2 = w1\<lparr>requests := requests w1 @ [Predict m (message_text prompt) opts]\<rparr>
         in case predict provider (handle_model m) (message_text prompt) opts of
              Inl failure \<Rightarrow> (Inl (ProviderError failure), w2)
            | Inr r \<Rightarrow>
               (Inr \<lparr>samples = [\<lparr>response = AIMessage (prediction_text r), score = 0\<rparr>],
                     usage = default_usage\<rparr>, w2)))"

definition sample_single ::
  "sdk \<Rightarrow> VertexAI \<Rightarrow> Message \<Rightarrow> world \<Rightarrow> (error + LMSamplingResult) \<times> world" where
  "sample_single provider self prompt w =
    (if n (sampling_options self) > 1
     then (Inl (ValueError (N_not_supported (n (sampling_options self)))), w)
     else
       (case registry_lookup (model self) of
          Inl e \<Rightarrow> (Inl e, w)
        | Inr s \<Rightarrow>
           if api s = ''gemini'' then sample_generative_model provider self prompt w
           else if api s = ''palm'' then sample_text_generation_model provider self prompt w
           else (Inl (ValueError (Unsupported_API (api s))), w)))"

subsection \<open>Sampling a list of prompts (lines 160-170)\<close>

text \<open>Modelled from the spec: \<open>lf.concurrent_execute\<close>, the executor of the repository
  (langfun/core/concurrent.py, which is not among the sources). By the spec it maps a
  function over the items with bounded concurrency, under a resource key; each result
  is positionally associated with its item, results are returned in the order of the
  input whatever the order of completion, a failing item does not abort its siblings
  and its error is visible at the position of that item. In the model the calls take
  effect on the world one after the other in the order \<open>completion_order\<close> (positions
  of the input); every finished call is kept with its position, and the results are
  returned by position. The call itself is recorded with its arguments.\<close>

fun run_tasks :: "('a \<Rightarrow> 'w \<Rightarrow> 'r \<times> 'w) \<Rightarrow> (nat \<times> 'a) list \<Rightarrow> 'w \<Rightarrow> (nat \<times> 'r) list \<times> 'w" where
  "run_tasks func [] w = ([], w)"
| "run_tasks func ((i, x) # rest) w =
    (case func x w of
       (r, w1) \<Rightarrow>
        (case run_tasks func rest w1 of
           (finished, w2) \<Rightarrow> ((i, r) # finished, w2)))"

definition concurrent_execute ::
  "('a \<Rightarrow> world \<Rightarrow> 'r \<times> world) \<Rightarrow> 'a list \<Rightarrow> string \<Rightarrow> int \<Rightarrow> string list option \<Rightarrow>
   nat list \<Rightarrow> world \<Rightarrow> 'r list \<times> world" where
  "concurrent_execute func parallel_inputs key workers retry completion_order w =
    (let w0 = w\<lparr>executor_calls := executor_calls w @
                  [\<lparr>executor = key, max_workers = workers, retry_on_errors = retry,
                    n_items = length parallel_inputs\<rparr>]\<rparr>;
         tasks = map (\<lambda>i. (i, parallel_inputs ! i))
                   (filter (\<lambda>i. i < length parallel_inputs) completion_order)
     in case run_tasks func tasks w0 of
          (finished, w1) \<Rightarrow> (map snd (sort_key fst finished), w1))"

text \<open>\<open>_sample\<close>: the assertion reads the cached property (which may raise), then the
  arguments of the executor are evaluated and the executor is called.\<close>

definition sample ::
  "sdk \<Rightarrow> (int \<Rightarrow> int \<Rightarrow> int) \<Rightarrow> environ \<Rightarrow> nat list \<Rightarrow> VertexAI \<Rightarrow> Message list \<Rightarrow> world \<Rightarrow>
   (error + (error + LMSamplingResult) list) \<times> VertexAI \<times> world" where
  "sample provider rate_to_max_concurrency env completion_order self prompts w =
    (case api_initialized env self w of
       (Inl e, self', w') \<Rightarrow> (Inl e, self', w')
     | (Inr initialized, self', w') \<Rightarrow>
        if \<not> initialized
        then (Inl (AssertionError ''Vertex AI API is not initialized.''), self', w')
        else
          (case max_concurrency rate_to_max_concurrency self' of
             Inl e \<Rightarrow> (Inl e, self', w')
           | Inr k \<Rightarrow>
              (case concurrent_execute (sample_single provider self') prompts
                      (resource_id self') k None completion_order w' of
                 (results, w'') \<Rightarrow> (Inr results, self', w''))))"

subsection \<open>The concrete variants (lines 262-291) and the state at import\<close>

text \<open>The defaults of the class body (lines 52-78) for a model and sampling options;
  a new instance has nothing cached.\<close>

definition VertexAI_defaults :: "string \<Rightarrow> LMSamplingOptions \<Rightarrow> VertexAI" where
  "VertexAI_defaults m options =
    \<lparr>model = m, project = None, location = None, credentials = None,
     multimodal = False, sampling_options = options, api_initialized_cache = None\<rparr>"

definition VertexAIGeminiPro1_5 :: "LMSamplingOptions \<Rightarrow> VertexAI" where
  "VertexAIGeminiPro1_5 options =
    (VertexAI_defaults ''gemini-1.5-pro-preview-0409'' options)\<lparr>multimodal := True\<rparr>"

definition VertexAIGeminiPro1 :: "LMSamplingOptions \<Rightarrow> VertexAI" where
  "VertexAIGeminiPro1 options = VertexAI_defaults ''gemini-1.0-pro'' options"

definition VertexAIGeminiPro1Vision :: "LMSamplingOptions \<Rightarrow> VertexAI" where
  "VertexAIGeminiPro1Vision options =
    (VertexAI_defaults ''gemini-1.0-pro-vision'' options)\<lparr>multimodal := True\<rparr>"

definition VertexAIPalm2 :: "LMSamplingOptions \<Rightarrow> VertexAI" where
  "VertexAIPalm2 options = VertexAI_defaults ''text-bison'' options"

definition VertexAIPalm2_32K :: "LMSamplingOptions \<Rightarrow> VertexAI" where
  "VertexAIPalm2_32K options = VertexAI_defaults ''text-bison-32k'' options"

text \<open>The state when the module has been imported: \<open>_VERTEXAI_MODEL_HUB = _ModelHub()\<close>
  (line 259), and nothing has been called yet.\<close>

definition world_at_import :: world where
  "world_at_import =
    \<lparr>vertexai_init_calls = [], VERTEXAI_MODEL_HUB = ModelHub_init, constructed = [],
     requests = [], executor_calls = []\<rparr>"

text \<open>Sampling options for the examples: one sample, the temperature and token limit
  of the spec's example.\<close>

definition example_options :: LMSamplingOptions where
  "example_options =
    \<lparr>temperature = Some (2 / 10), max_tokens = Some 64, n = 1, top_k = Some 40,
     top_p = None, stop = None\<rparr>"

text \<open>A provider for the examples: the generative model answers with the text chunks
  of the request joined (an image shows as a tag) and counts tokens by chunks; the text
  model echoes the prompt and fails on an empty one.\<close>

definition example_provider :: sdk where
  "example_provider =
    \<lparr>generate_content = (\<lambda>m c cfg.
        Inr \<lparr>response_text = concat (map (\<lambda>x. case x of Text s \<Rightarrow> s | SDK_Image b \<Rightarrow> ''<image>'') c),
             usage_metadata = \<lparr>prompt_token_count = int (length c),
                               candidates_token_count = 1,
                               total_token_count = int (length c) + 1\<rparr>\<rparr>),
     predict = (\<lambda>m t opts.
        if t = [] then Inl ''empty prompt'' else Inr \<lparr>prediction_text = ''echo: '' @ t\<rparr>)\<rparr>"

text \<open>A rate conversion for the examples (one worker per 60 requests per minute, at
  least one).\<close>

definition example_rate_conversion :: "int \<Rightarrow> int \<Rightarrow> int" where
  "example_rate_conversion r t = max 1 (r div 60)"

subsection \<open>Sequences of calls on the hub, and its invariant\<close>

text \<open>The hub is private to the module and has the two methods only, so its life is a
  sequence of calls of them.\<close>

datatype hub_call = Get_generative_model string | Get_text_generation_model string

fun hub_call_step :: "hub_call \<Rightarrow> ModelHub \<times> handle list \<Rightarrow> ModelHub \<times> handle list" where
  "hub_call_step (Get_generative_model mid) (hub, objs) =
     snd (get_generative_model hub mid objs)"
| "hub_call_step (Get_text_generation_model mid) (hub, objs) =
     snd (get_text_generation_model hub mid objs)"

definition hub_calls :: "hub_call list \<Rightarrow> ModelHub \<times> handle list \<Rightarrow> ModelHub \<times> handle list" where
  "hub_calls calls st = fold hub_call_step calls st"

text \<open>Every cached handle was built for the model id it is cached under.\<close>

definition hub_consistent :: "ModelHub \<Rightarrow> bool" where
  "hub_consistent hub =
    ((\<forall>mid h. generative_model_cache hub mid = Some h \<longrightarrow> handle_model h = mid) \<and>
     (\<forall>mid h. text_generation_model_cache hub mid = Some h \<longrightarrow> handle_model h = mid))"

text \<open>Whether a handle was built by the generative-model constructor (by the pretrained
  text-model loader) for the model id \<open>mid\<close>.\<close>

fun generative_for :: "string \<Rightarrow> handle \<Rightarrow> bool" where
  "generative_for mid (GenerativeModel i m) = (m = mid)"
| "generative_for mid (TextGenerationModel i m) = False"

fun text_generation_for :: "string \<Rightarrow> handle \<Rightarrow> bool" where
  "text_generation_for mid (GenerativeModel i m) = False"
| "text_generation_for mid (TextGenerationModel i m) = (m = mid)"

text \<open>The invariant behind building at most once: a model id with no cached handle has
  no handle built for it, and no model id has more than one.\<close>

definition built_once :: "ModelHub \<times> handle list \<Rightarrow> bool" where
  "built_once st =
    (\<forall>mid. (generative_model_cache (fst st) mid = None \<longrightarrow>
              filter (generative_for mid) (snd st) = []) \<and>
           (text_generation_model_cache (fst st) mid = None \<longrightarrow>
              filter (text_generation_for mid) (snd st) = []) \<and>
           length (filter (generative_for mid) (snd st)) \<le> 1 \<and>
           length (filter (text_generation_for mid) (snd st)) \<le> 1)"

text \<open>An environment, prompts and a completion order for the examples.\<close>

definition example_environ :: environ where
  "example_environ =
    [''VERTEXAI_PROJECT'' \<mapsto> ''demo-project'', ''VERTEXAI_LOCATION'' \<mapsto> ''us-central1'']"

definition text_prompt :: "string \<Rightarrow> Message" where
  "text_prompt t = \<lparr>message_text = t, chunk = [Str t]\<rparr>"

definition image_prompt :: Message where
  "image_prompt =
    \<lparr>message_text = ''Describe <<[[image]]>>'', chunk = [Str ''Describe '', LfImage ''png'']\<rparr>"

section \<open>Auxiliary facts\<close>

subsection \<open>Truth values of optional strings, and the getter by cases\<close>

lemma falsy_cases: "falsy a = (a = None \<or> a = Some [])"
  by (simp add: falsy_def split: option.splits)

lemma py_or_cases: "py_or a b = (if a = None \<or> a = Some [] then b else a)"
  by (simp add: py_or_def falsy_cases)

lemma getter_cases:
  "api_initialized_getter env self w =
    (if falsy (py_or (project self) (env ''VERTEXAI_PROJECT''))
     then (Inl (ValueError (Literal project_message)), w)
     else if falsy (py_or (location self) (env ''VERTEXAI_LOCATION''))
     then (Inl (ValueError (Literal location_message)), w)
     else (Inr True,
           w\<lparr>vertexai_init_calls := vertexai_init_calls w @
               [(the (py_or (project self) (env ''VERTEXAI_PROJECT'')),
                 the (py_or (location self) (env ''VERTEXAI_LOCATION'')), credentials self)]\<rparr>))"
  by (auto simp add: api_initialized_getter_def falsy_cases split: option.splits)

lemma api_initialized_success:
  assumes "fst (api_initialized env self w) = Inr True"
  shows "\<exists>c w'. api_initialized env self w = (Inr True, self\<lparr>api_initialized_cache := c\<rparr>, w')
           \<and> VERTEXAI_MODEL_HUB w' = VERTEXAI_MODEL_HUB w
           \<and> executor_calls w' = executor_calls w"
proof (cases "api_initialized_cache self")
  case None
  with assms show ?thesis
    by (auto simp add: api_initialized_def api_initialized_getter_def
        split: option.splits if_splits)
next
  case (Some v)
  with assms have "api_initialized env self w = (Inr True, self\<lparr>api_initialized_cache := Some v\<rparr>, w)"
    by (simp add: api_initialized_def)
  then show ?thesis by blast
qed

subsection \<open>The registry\<close>

lemma registry_entry:
  assumes "accepts_model m"
  shows "\<exists>s. map_of SUPPORTED_MODELS_AND_SETTINGS m = Some s
           \<and> (api s = ''gemini'' \<or> api s = ''palm'') \<and> 0 < rpm s"
  using assms
  by (auto simp add: accepts_model_def model_candidates_def SUPPORTED_MODELS_AND_SETTINGS_def)

subsection \<open>The content loop\<close>

lemma content_loop_find:
  "content_loop self xs acc =
    (case find (\<lambda>c. case c of Str s \<Rightarrow> False | LfImage b \<Rightarrow> \<not> multimodal self
                            | Other_modality k b \<Rightarrow> True) xs of
       None \<Rightarrow> Inr (acc @ concat (map (\<lambda>c. case c of Str s \<Rightarrow> [Text s] | LfImage b \<Rightarrow> [SDK_Image b]
                            | Other_modality k b \<Rightarrow> []) xs))
     | Some c \<Rightarrow> Inl (ValueError (Unsupported_modality c)))"
proof (induction xs arbitrary: acc)
  case Nil
  show ?case by simp
next
  case (Cons x xs)
  show ?case
  proof (cases x)
    case (Str s)
    then show ?thesis by (simp add: content_of_chunk_def Cons.IH split: option.splits)
  next
    case (LfImage b)
    then show ?thesis by (simp add: content_of_chunk_def Cons.IH split: option.splits)
  next
    case (Other_modality k b)
    then show ?thesis by (simp add: content_of_chunk_def)
  qed
qed

lemma content_of_chunk_cache_irrelevant:
  "content_of_chunk (self\<lparr>api_initialized_cache := c\<rparr>) x = content_of_chunk self x"
  by (simp add: content_of_chunk_def split: lf_chunk.splits)

lemma content_loop_cache_irrelevant:
  "content_loop (self\<lparr>api_initialized_cache := c\<rparr>) xs acc = content_loop self xs acc"
  by (induction xs arbitrary: acc)
    (simp_all add: content_of_chunk_cache_irrelevant split: sum.splits)

subsection \<open>The hub\<close>

lemma get_generative_model_cached:
  "generative_model_cache hub mid = Some h \<Longrightarrow> get_generative_model hub mid objs = (h, hub, objs)"
  by (simp add: get_generative_model_def)

lemma get_text_generation_model_cached:
  "text_generation_model_cache hub mid = Some h \<Longrightarrow>
     get_text_generation_model hub mid objs = (h, hub, objs)"
  by (simp add: get_text_generation_model_def)

lemma get_generative_model_caches:
  "get_generative_model hub mid objs = (h, hub1, objs1) \<Longrightarrow> generative_model_cache hub1 mid = Some h"
  by (auto simp add: get_generative_model_def Let_def split: option.splits)

lemma get_text_generation_model_caches:
  "get_text_generation_model hub mid objs = (h, hub1, objs1) \<Longrightarrow>
     text_generation_model_cache hub1 mid = Some h"
  by (auto simp add: get_text_generation_model_def Let_def split: option.splits)

lemma hub_call_step_keeps:
  "(generative_model_cache hub mid = Some h \<longrightarrow>
      generative_model_cache (fst (hub_call_step c (hub, objs))) mid = Some h) \<and>
   (text_generation_model_cache hub mid = Some h \<longrightarrow>
      text_generation_model_cache (fst (hub_call_step c (hub, objs))) mid = Some h)"
  by (cases c)
    (auto simp add: get_generative_model_def get_text_generation_model_def Let_def
      split: option.splits)

lemma hub_calls_keep:
  "(generative_model_cache (fst st) mid = Some h \<longrightarrow>
      generative_model_cache (fst (hub_calls calls st)) mid = Some h) \<and>
   (text_generation_model_cache (fst st) mid = Some h \<longrightarrow>
      text_generation_model_cache (fst (hub_calls calls st)) mid = Some h)"
proof (induction calls arbitrary: st)
  case Nil
  show ?case by (simp add: hub_calls_def)
next
  case (Cons c calls)
  obtain hub objs where st: "st = (hub, objs)" by (cases st)
  from hub_call_step_keeps [of hub mid h c objs] Cons.IH [of "hub_call_step c (hub, objs)"]
  show ?case by (simp add: hub_calls_def st)
qed

lemma built_once_step: "built_once (hub, objs) \<Longrightarrow> built_once (hub_call_step c (hub, objs))"
  by (cases c)
    (auto simp add: built_once_def get_generative_model_def
      get_text_generation_model_def Let_def split: option.splits)

lemma built_once_calls: "built_once st \<Longrightarrow> built_once (hub_calls calls st)"
proof (induction calls arbitrary: st)
  case Nil
  then show ?case by (simp add: hub_calls_def)
next
  case (Cons c calls)
  obtain hub objs where st: "st = (hub, objs)" by (cases st)
  from Cons.prems have "built_once (hub_call_step c (hub, objs))"
    by (simp add: st built_once_step)
  from Cons.IH [OF this] show ?case by (simp add: hub_calls_def st)
qed

lemma built_once_init: "built_once (ModelHub_init, [])"
  by (simp add: built_once_def ModelHub_init_def)

lemma get_generative_model_consistent:
  assumes "hub_consistent hub" and "get_generative_model hub mid objs = (h, hub1, objs1)"
  shows "handle_model h = mid \<and> hub_consistent hub1"
  using assms
  by (auto simp add: hub_consistent_def get_generative_model_def Let_def
      split: option.splits if_splits)

lemma get_text_generation_model_consistent:
  assumes "hub_consistent hub" and "get_text_generation_model hub mid objs = (h, hub1, objs1)"
  shows "handle_model h = mid \<and> hub_consistent hub1"
  using assms
  by (auto simp add: hub_consistent_def get_text_generation_model_def Let_def
      split: option.splits if_splits)

lemma hub_consistent_init: "hub_consistent ModelHub_init"
  by (simp add: hub_consistent_def ModelHub_init_def)

subsection \<open>Sampling one prompt: the outcome and the frame\<close>

lemma sample_generative_model_outcome:
  assumes "hub_consistent (VERTEXAI_MODEL_HUB w)"
  shows "fst (sample_generative_model provider self prompt w) =
    (case content_from_message self prompt of
       Inl e \<Rightarrow> Inl e
     | Inr c \<Rightarrow>
        (case generate_content provider (model self) c (generation_config (sampling_options self)) of
           Inl failure \<Rightarrow> Inl (ProviderError failure)
         | Inr r \<Rightarrow>
            Inr \<lparr>samples = [\<lparr>response = generation_response_to_message r, score = 0\<rparr>],
                 usage = Some \<lparr>prompt_tokens = prompt_token_count (usage_metadata r),
                               completion_tokens = candidates_token_count (usage_metadata r),
                               total_tokens = total_token_count (usage_metadata r)\<rparr>\<rparr>))"
proof -
  obtain h hub1 objs1 where
    g: "get_generative_model (VERTEXAI_MODEL_HUB w) (model self) (constructed w) = (h, hub1, objs1)"
    by (cases "get_generative_model (VERTEXAI_MODEL_HUB w) (model self) (constructed w)")
  from get_generative_model_consistent [OF assms g] have "handle_model h = model self" by simp
  then show ?thesis
    by (simp add: sample_generative_model_def g Let_def split: sum.splits)
qed

lemma sample_text_generation_model_outcome:
  assumes "hub_consistent (VERTEXAI_MODEL_HUB w)"
  shows "fst (sample_text_generation_model provider self prompt w) =
    (case predict provider (model self) (message_text prompt)
            \<lparr>po_temperature = temperature (sampling_options self),
             po_top_k = top_k (sampling_options self),
             po_top_p = top_p (sampling_options self),
             po_max_output_tokens = max_tokens (sampling_options self),
             po_stop_sequences = stop (sampling_options self)\<rparr> of
       Inl failure \<Rightarrow> Inl (ProviderError failure)
     | Inr r \<Rightarrow>
        Inr \<lparr>samples = [\<lparr>response = AIMessage (prediction_text r), score = 0\<rparr>],
             usage = default_usage\<rparr>)"
proof -
  obtain h hub1 objs1 where
    g: "get_text_generation_model (VERTEXAI_MODEL_HUB w) (model self) (constructed w) = (h, hub1, objs1)"
    by (cases "get_text_generation_model (VERTEXAI_MODEL_HUB w) (model self) (constructed w)")
  from get_text_generation_model_consistent [OF assms g] have "handle_model h = model self" by simp
  then show ?thesis
    by (simp add: sample_text_generation_model_def g Let_def split: sum.splits)
qed

lemma sample_single_outcome_independent:
  assumes "hub_consistent (VERTEXAI_MODEL_HUB w)" and "hub_consistent (VERTEXAI_MODEL_HUB w')"
  shows "fst (sample_single provider self prompt w) = fst (sample_single provider self prompt w')"
  using assms
  by (simp add: sample_single_def sample_generative_model_outcome
      sample_text_generation_model_outcome split: sum.splits)

lemma sample_generative_model_frame:
  assumes "hub_consistent (VERTEXAI_MODEL_HUB w)"
  shows "hub_consistent (VERTEXAI_MODEL_HUB (snd (sample_generative_model provider self prompt w)))"
proof -
  obtain h hub1 objs1 where
    g: "get_generative_model (VERTEXAI_MODEL_HUB w) (model self) (constructed w) = (h, hub1, objs1)"
    by (cases "get_generative_model (VERTEXAI_MODEL_HUB w) (model self) (constructed w)")
  from get_generative_model_consistent [OF assms g] have "hub_consistent hub1" by simp
  then show ?thesis
    by (simp add: sample_generative_model_def g Let_def split: sum.splits)
qed

lemma sample_text_generation_model_frame:
  assumes "hub_consistent (VERTEXAI_MODEL_HUB w)"
  shows "hub_consistent (VERTEXAI_MODEL_HUB (snd (sample_text_generation_model provider self prompt w)))"
proof -
  obtain h hub1 objs1 where
    g: "get_text_generation_model (VERTEXAI_MODEL_HUB w) (model self) (constructed w) = (h, hub1, objs1)"
    by (cases "get_text_generation_model (VERTEXAI_MODEL_HUB w) (model self) (constructed w)")
  from get_text_generation_model_consistent [OF assms g] have "hub_consistent hub1" by simp
  then show ?thesis
    by (simp add: sample_text_generation_model_def g Let_def split: sum.splits)
qed

lemma sample_single_frame:
  assumes "hub_consistent (VERTEXAI_MODEL_HUB w)"
  shows "hub_consistent (VERTEXAI_MODEL_HUB (snd (sample_single provider self prompt w)))"
  using assms sample_generative_model_frame [OF assms, of provider self prompt]
    sample_text_generation_model_frame [OF assms, of provider self prompt]
  by (simp add: sample_single_def split: sum.splits)

lemma sample_single_executor_calls:
  "executor_calls (snd (sample_single provider self prompt w)) = executor_calls w"
  by (simp add: sample_single_def sample_generative_model_def sample_text_generation_model_def
      Let_def split: sum.splits prod.splits)

lemma sample_generative_model_cache_irrelevant:
  "sample_generative_model provider (self\<lparr>api_initialized_cache := c\<rparr>) prompt w =
     sample_generative_model provider self prompt w"
  by (simp add: sample_generative_model_def content_from_message_def
      content_loop_cache_irrelevant Let_def split_beta split: sum.splits)

lemma sample_text_generation_model_cache_irrelevant:
  "sample_text_generation_model provider (self\<lparr>api_initialized_cache := c\<rparr>) prompt w =
     sample_text_generation_model provider self prompt w"
  by (simp add: sample_text_generation_model_def Let_def split_beta split: sum.splits)

lemma sample_single_cache_irrelevant:
  "sample_single provider (self\<lparr>api_initialized_cache := c\<rparr>) = sample_single provider self"
  by (intro ext)
    (simp add: sample_single_def sample_generative_model_cache_irrelevant
      sample_text_generation_model_cache_irrelevant split: sum.splits)

subsection \<open>The executor\<close>

lemma run_tasks_executor_calls:
  "executor_calls (snd (run_tasks (sample_single provider self) tasks w)) = executor_calls w"
proof (induction tasks arbitrary: w)
  case Nil
  show ?case by simp
next
  case (Cons t tasks)
  obtain i x where t: "t = (i, x)" by (cases t)
  obtain r w1 where f: "sample_single provider self x w = (r, w1)"
    by (cases "sample_single provider self x w")
  from sample_single_executor_calls [of provider self x w] f
  have "executor_calls w1 = executor_calls w" by simp
  with Cons.IH [of w1] show ?case
    by (simp add: t f split_beta)
qed

lemma run_tasks_outcomes:
  assumes "hub_consistent (VERTEXAI_MODEL_HUB w)" and "hub_consistent (VERTEXAI_MODEL_HUB w0)"
  shows "fst (run_tasks (sample_single provider self) tasks w) =
           map (\<lambda>t. (fst t, fst (sample_single provider self (snd t) w0))) tasks"
  using assms(1)
proof (induction tasks arbitrary: w)
  case Nil
  show ?case by simp
next
  case (Cons t tasks)
  obtain i x where t: "t = (i, x)" by (cases t)
  obtain r w1 where f: "sample_single provider self x w = (r, w1)"
    by (cases "sample_single provider self x w")
  from sample_single_frame [OF Cons.prems, of provider self x] f
  have c1: "hub_consistent (VERTEXAI_MODEL_HUB w1)" by simp
  from sample_single_outcome_independent [OF Cons.prems assms(2), of provider self x] f
  have r: "r = fst (sample_single provider self x w0)" by simp
  from Cons.IH [OF c1] show ?case
    by (simp add: t f r split_beta)
qed

lemma sorted_by_position:
  assumes "mset order = mset [0..<k]"
  shows "sort_key fst (map (\<lambda>i. (i, g i)) order) = map (\<lambda>i. (i, g i)) [0..<k]"
proof (rule sort_key_inj_key_eq)
  from arg_cong [OF assms, of "image_mset (\<lambda>i. (i, g i))"]
  show "mset (map (\<lambda>i. (i, g i)) order) = mset (map (\<lambda>i. (i, g i)) [0..<k])"
    by (simp only: mset_map)
  show "inj_on fst (set (map (\<lambda>i. (i, g i)) order))"
    by (auto simp add: inj_on_def)
  show "sorted (map fst (map (\<lambda>i. (i, g i)) [0..<k]))"
    by (simp add: comp_def)
qed

lemma all_positions:
  assumes "mset order = mset [0..<k]"
  shows "filter (\<lambda>i. i < k) order = order"
proof -
  from assms have "set order = set [0..<k]" by (rule mset_eq_setD)
  then show ?thesis by (auto simp add: filter_id_conv)
qed

lemma concurrent_execute_outcomes:
  assumes "hub_consistent (VERTEXAI_MODEL_HUB w)"
    and "mset order = mset [0..<length items]"
  shows "fst (concurrent_execute (sample_single provider self) items key workers retry order w) =
           map (\<lambda>x. fst (sample_single provider self x w)) items"
proof -
  let ?w0 = "w\<lparr>executor_calls := executor_calls w @
                  [\<lparr>executor = key, max_workers = workers, retry_on_errors = retry,
                    n_items = length items\<rparr>]\<rparr>"
  let ?g = "\<lambda>i. fst (sample_single provider self (items ! i) w)"
  have c0: "hub_consistent (VERTEXAI_MODEL_HUB ?w0)" using assms(1) by simp
  have "fst (run_tasks (sample_single provider self) (map (\<lambda>i. (i, items ! i)) order) ?w0) =
          map (\<lambda>i. (i, ?g i)) order"
    by (simp add: run_tasks_outcomes [OF c0 assms(1)] comp_def)
  then have "fst (concurrent_execute (sample_single provider self) items key workers retry order w) =
          map snd (sort_key fst (map (\<lambda>i. (i, ?g i)) order))"
    by (simp add: concurrent_execute_def Let_def all_positions [OF assms(2)] split_beta)
  also have "\<dots> = map ?g [0..<length items]"
    by (simp add: sorted_by_position [OF assms(2)] comp_def)
  also have "\<dots> = map (\<lambda>x. fst (sample_single provider self x w)) items"
    by (simp add: map_equality_iff)
  finally show ?thesis .
qed

lemma concurrent_execute_call_recorded:
  "executor_calls (snd (concurrent_execute (sample_single provider self) items key workers retry order w)) =
     executor_calls w @ [\<lparr>executor = key, max_workers = workers, retry_on_errors = retry,
                          n_items = length items\<rparr>]"
  by (simp add: concurrent_execute_def Let_def run_tasks_executor_calls split_beta)

lemma run_tasks_consistent:
  assumes "hub_consistent (VERTEXAI_MODEL_HUB w)"
  shows "hub_consistent (VERTEXAI_MODEL_HUB (snd (run_tasks (sample_single provider self) tasks w)))"
  using assms
proof (induction tasks arbitrary: w)
  case Nil
  then show ?case by simp
next
  case (Cons t tasks)
  obtain i x where t: "t = (i, x)" by (cases t)
  obtain r w1 where f: "sample_single provider self x w = (r, w1)"
    by (cases "sample_single provider self x w")
  from sample_single_frame [OF Cons.prems, of provider self x] f
  have "hub_consistent (VERTEXAI_MODEL_HUB w1)" by simp
  from Cons.IH [OF this] show ?case
    by (simp add: t f split_beta)
qed

lemma concurrent_execute_consistent:
  assumes "hub_consistent (VERTEXAI_MODEL_HUB w)"
  shows "hub_consistent (VERTEXAI_MODEL_HUB
           (snd (concurrent_execute (sample_single provider self) items key workers retry order w)))"
proof -
  let ?w0 = "w\<lparr>executor_calls := executor_calls w @
                  [\<lparr>executor = key, max_workers = workers, retry_on_errors = retry,
                    n_items = length items\<rparr>]\<rparr>"
  have "hub_consistent (VERTEXAI_MODEL_HUB ?w0)" using assms by simp
  from run_tasks_consistent [OF this] show ?thesis
    by (simp add: concurrent_execute_def Let_def split_beta)
qed

section \<open>The claims\<close>

subsection \<open>Sampling a list of prompts\<close>

text \<open>
  C1. For a list of \<open>N\<close> prompts, \<open>sample\<close> returns exactly \<open>N\<close> results, and the result
  at position \<open>i\<close> is the outcome of sampling the prompt at position \<open>i\<close>, whatever the
  order in which the dispatches complete: every completion order gives the same list.
  The adapter is one whose lazy initialization succeeds and whose model is one the
  constructor accepts; a completion order is any permutation of the positions; the hub
  is in a state its two methods can have produced, and is left in such a state.
\<close>

theorem sample_results_in_input_order:
  assumes "fst (api_initialized env self w) = Inr True"
    and "accepts_model (model self)"
    and "hub_consistent (VERTEXAI_MODEL_HUB w)"
    and "mset completion_order = mset [0..<length prompts]"
  shows "\<exists>results self' w'.
           sample provider rate_to_max_concurrency env completion_order self prompts w =
             (Inr results, self', w')
           \<and> length results = length prompts
           \<and> (\<forall>i<length prompts.
                 results ! i = fst (sample_single provider self (prompts ! i) w))
           \<and> (\<forall>other_order. mset other_order = mset [0..<length prompts] \<longrightarrow>
                 fst (sample provider rate_to_max_concurrency env other_order self prompts w) =
                   Inr results)
           \<and> hub_consistent (VERTEXAI_MODEL_HUB w')"
proof -
  from api_initialized_success [OF assms(1)] obtain c w1 where
    a: "api_initialized env self w = (Inr True, self\<lparr>api_initialized_cache := c\<rparr>, w1)"
    and h: "VERTEXAI_MODEL_HUB w1 = VERTEXAI_MODEL_HUB w" by blast
  from registry_entry [OF assms(2)] obtain s where
    s: "map_of SUPPORTED_MODELS_AND_SETTINGS (model self) = Some s" by blast
  let ?self = "self\<lparr>api_initialized_cache := c\<rparr>"
  let ?k = "rate_to_max_concurrency (rpm s) 0"
  let ?run = "\<lambda>order. concurrent_execute (sample_single provider self) prompts (resource_id ?self)
                ?k None order w1"
  let ?results = "map (\<lambda>x. fst (sample_single provider self x w)) prompts"
  have m: "max_concurrency rate_to_max_concurrency ?self = Inr ?k"
    by (simp add: max_concurrency_def registry_lookup_def s)
  have c1: "hub_consistent (VERTEXAI_MODEL_HUB w1)" using assms(3) h by simp
  have e: "sample provider rate_to_max_concurrency env order self prompts w =
             (Inr (fst (?run order)), ?self, snd (?run order))" for order
    by (simp add: sample_def a m sample_single_cache_irrelevant split_beta)
  have r: "fst (?run order) = ?results" if "mset order = mset [0..<length prompts]" for order
    using concurrent_execute_outcomes [OF c1 that, of provider self]
      sample_single_outcome_independent [OF c1 assms(3), of provider self]
    by simp
  have "sample provider rate_to_max_concurrency env completion_order self prompts w =
          (Inr ?results, ?self, snd (?run completion_order))"
    by (simp add: e r [OF assms(4)])
  moreover have "length ?results = length prompts" by simp
  moreover have "\<forall>i<length prompts.
      ?results ! i = fst (sample_single provider self (prompts ! i) w)" by simp
  moreover have "\<forall>other_order. mset other_order = mset [0..<length prompts] \<longrightarrow>
      fst (sample provider rate_to_max_concurrency env other_order self prompts w) = Inr ?results"
    by (simp add: e r)
  moreover have "hub_consistent (VERTEXAI_MODEL_HUB (snd (?run completion_order)))"
    by (rule concurrent_execute_consistent [OF c1])
  ultimately show ?thesis by blast
qed

text \<open>Three prompts that complete in the order third, first, second; the second fails
  at the provider, and its error stands at the second position.\<close>

theorem sample_results_in_input_order_witness:
  "\<exists>results self' w'.
     sample example_provider example_rate_conversion example_environ [2, 0, 1]
       (VertexAIPalm2 example_options) [text_prompt ''A'', text_prompt [], text_prompt ''B'']
       world_at_import = (Inr results, self', w')
     \<and> length results = 3
     \<and> results ! 0 = Inr \<lparr>samples = [\<lparr>response = AIMessage ''echo: A'', score = 0\<rparr>], usage = None\<rparr>
     \<and> results ! 1 = Inl (ProviderError ''empty prompt'')
     \<and> results ! 2 = Inr \<lparr>samples = [\<lparr>response = AIMessage ''echo: B'', score = 0\<rparr>], usage = None\<rparr>
     \<and> fst (sample example_provider example_rate_conversion example_environ [0, 1, 2]
         (VertexAIPalm2 example_options) [text_prompt ''A'', text_prompt [], text_prompt ''B'']
         world_at_import) = Inr results"
proof -
  let ?S = "VertexAIPalm2 example_options"
  let ?ps = "[text_prompt ''A'', text_prompt [], text_prompt ''B'']"
  have i: "fst (api_initialized example_environ ?S world_at_import) = Inr True"
    by (simp add: api_initialized_def getter_cases falsy_cases py_or_cases example_environ_def
        VertexAIPalm2_def VertexAI_defaults_def)
  have a: "accepts_model (model ?S)"
    by (simp add: accepts_model_def model_candidates_def SUPPORTED_MODELS_AND_SETTINGS_def
        VertexAIPalm2_def VertexAI_defaults_def)
  have c: "hub_consistent (VERTEXAI_MODEL_HUB world_at_import)"
    by (simp add: world_at_import_def hub_consistent_init)
  have p: "mset [2, 0, 1] = mset [0..<length ?ps]" "mset [0, 1, 2] = mset [0..<length ?ps]"
    by (simp_all add: upt_rec add_mset_commute)
  have s: "\<And>t. fst (sample_single example_provider ?S (text_prompt t) world_at_import) =
      (if t = [] then Inl (ProviderError ''empty prompt'')
       else Inr \<lparr>samples = [\<lparr>response = AIMessage (''echo: '' @ t), score = 0\<rparr>], usage = None\<rparr>)"
    by (simp add: sample_single_def registry_lookup_def SUPPORTED_MODELS_AND_SETTINGS_def
        sample_text_generation_model_def get_text_generation_model_def Let_def
        example_provider_def example_options_def text_prompt_def default_usage_def
        world_at_import_def ModelHub_init_def VertexAIPalm2_def VertexAI_defaults_def)
  from sample_results_in_input_order [OF i a c p(1), of example_provider example_rate_conversion]
  obtain results self' w' where
    r: "sample example_provider example_rate_conversion example_environ [2, 0, 1] ?S ?ps
          world_at_import = (Inr results, self', w')"
    and l: "length results = length ?ps"
    and n: "\<forall>i<length ?ps. results ! i = fst (sample_single example_provider ?S (?ps ! i) world_at_import)"
    and o: "\<forall>other_order. mset other_order = mset [0..<length ?ps] \<longrightarrow>
                 fst (sample example_provider example_rate_conversion example_environ other_order
                        ?S ?ps world_at_import) = Inr results"
    by blast
  from n have "results ! 0 = fst (sample_single example_provider ?S (text_prompt ''A'') world_at_import)"
    "results ! 1 = fst (sample_single example_provider ?S (text_prompt []) world_at_import)"
    "results ! 2 = fst (sample_single example_provider ?S (text_prompt ''B'') world_at_import)"
    by simp_all
  moreover from o p(2)
  have "fst (sample example_provider example_rate_conversion example_environ [0, 1, 2]
               ?S ?ps world_at_import) = Inr results" by blast
  ultimately show ?thesis using r l by (simp add: s)
qed

text \<open>
  C3. The resource key passed to the executor is the adapter's \<open>model_id\<close>, the string
  \<open>VertexAI(\<close>model\<open>)\<close>; two instances have the same key exactly when they have the same
  model, so instances constructed with the same model share one key. After a sampling
  call on an adapter that initializes, the executor has been called once more, with
  this key, the concurrency bound of the model and no retry.
\<close>

theorem executor_key_is_model_id:
  "resource_id self = model_id self
   \<and> model_id self = ''VertexAI('' @ model self @ '')''
   \<and> (\<forall>other. (model other = model self) = (resource_id other = resource_id self))
   \<and> (fst (api_initialized env self w) = Inr True \<and> accepts_model (model self) \<longrightarrow>
        (\<exists>k. max_concurrency rate_to_max_concurrency self = Inr k \<and>
          executor_calls
            (snd (snd (sample provider rate_to_max_concurrency env completion_order self prompts w))) =
          executor_calls w @
            [\<lparr>executor = model_id self, max_workers = k, retry_on_errors = None,
              n_items = length prompts\<rparr>]))"
proof (intro conjI allI impI)
  show "resource_id self = model_id self" by (simp add: resource_id_def)
  show "model_id self = ''VertexAI('' @ model self @ '')''" by (simp add: model_id_def)
  show "(model other = model self) = (resource_id other = resource_id self)" for other
    by (simp add: resource_id_def model_id_def)
next
  assume p: "fst (api_initialized env self w) = Inr True \<and> accepts_model (model self)"
  from api_initialized_success [of env self w] p obtain c w1 where
    a: "api_initialized env self w = (Inr True, self\<lparr>api_initialized_cache := c\<rparr>, w1)"
    and x: "executor_calls w1 = executor_calls w" by blast
  from registry_entry [of "model self"] p obtain s where
    s: "map_of SUPPORTED_MODELS_AND_SETTINGS (model self) = Some s" by blast
  let ?self = "self\<lparr>api_initialized_cache := c\<rparr>"
  let ?k = "rate_to_max_concurrency (rpm s) 0"
  have m: "max_concurrency rate_to_max_concurrency self = Inr ?k"
    by (simp add: max_concurrency_def registry_lookup_def s)
  have m': "max_concurrency rate_to_max_concurrency ?self = Inr ?k"
    by (simp add: max_concurrency_def registry_lookup_def s)
  have i: "resource_id ?self = model_id self" by (simp add: resource_id_def model_id_def)
  have "executor_calls
            (snd (snd (sample provider rate_to_max_concurrency env completion_order self prompts w))) =
          executor_calls w @
            [\<lparr>executor = model_id self, max_workers = ?k, retry_on_errors = None,
              n_items = length prompts\<rparr>]"
    by (simp add: sample_def a m' i x sample_single_cache_irrelevant split_beta
        concurrent_execute_call_recorded)
  with m show "\<exists>k. max_concurrency rate_to_max_concurrency self = Inr k \<and>
          executor_calls
            (snd (snd (sample provider rate_to_max_concurrency env completion_order self prompts w))) =
          executor_calls w @
            [\<lparr>executor = model_id self, max_workers = k, retry_on_errors = None,
              n_items = length prompts\<rparr>]" by blast
qed

theorem executor_key_is_model_id_witness:
  "resource_id (VertexAIPalm2 example_options) = ''VertexAI(text-bison)''
   \<and> resource_id (VertexAIPalm2_32K example_options) \<noteq> resource_id (VertexAIPalm2 example_options)
   \<and> executor_calls
       (snd (snd (sample example_provider example_rate_conversion example_environ [0]
          (VertexAIPalm2 example_options) [text_prompt ''Hello''] world_at_import))) =
     [\<lparr>executor = ''VertexAI(text-bison)'', max_workers = 26, retry_on_errors = None, n_items = 1\<rparr>]"
proof -
  let ?S = "VertexAIPalm2 example_options"
  have i: "fst (api_initialized example_environ ?S world_at_import) = Inr True"
    by (simp add: api_initialized_def getter_cases falsy_cases py_or_cases example_environ_def
        VertexAIPalm2_def VertexAI_defaults_def)
  have a: "accepts_model (model ?S)"
    by (simp add: accepts_model_def model_candidates_def SUPPORTED_MODELS_AND_SETTINGS_def
        VertexAIPalm2_def VertexAI_defaults_def)
  have k: "max_concurrency example_rate_conversion ?S = Inr 26"
    by (simp add: max_concurrency_def registry_lookup_def SUPPORTED_MODELS_AND_SETTINGS_def
        example_rate_conversion_def VertexAIPalm2_def VertexAI_defaults_def)
  have m: "model ?S = ''text-bison''" "model (VertexAIPalm2_32K example_options) = ''text-bison-32k''"
    by (simp_all add: VertexAIPalm2_def VertexAIPalm2_32K_def VertexAI_defaults_def)
  have e: "executor_calls world_at_import = []" by (simp add: world_at_import_def)
  note t = executor_key_is_model_id [where self = ?S and env = example_environ
      and w = world_at_import and rate_to_max_concurrency = example_rate_conversion
      and provider = example_provider and completion_order = "[0]"
      and prompts = "[text_prompt ''Hello'']"]
  from t have "model_id ?S = ''VertexAI('' @ model ?S @ '')''" by blast
  then have d: "model_id ?S = ''VertexAI(text-bison)''" by (simp add: m)
  from t have r: "resource_id ?S = model_id ?S" by blast
  from t have "(model (VertexAIPalm2_32K example_options) = model ?S) =
      (resource_id (VertexAIPalm2_32K example_options) = resource_id ?S)" by blast
  then have o: "resource_id (VertexAIPalm2_32K example_options) \<noteq> resource_id ?S"
    by (simp add: m)
  from t i a obtain k where "max_concurrency example_rate_conversion ?S = Inr k"
    and "executor_calls
       (snd (snd (sample example_provider example_rate_conversion example_environ [0]
          ?S [text_prompt ''Hello''] world_at_import))) =
      executor_calls world_at_import @
        [\<lparr>executor = model_id ?S, max_workers = k, retry_on_errors = None,
          n_items = length [text_prompt ''Hello'']\<rparr>]"
    by blast
  with k d e r o show ?thesis by simp
qed

text \<open>The key is not the model name itself.\<close>

theorem executor_key_is_not_the_model_name:
  "model (VertexAIPalm2 example_options) = ''text-bison''
   \<and> resource_id (VertexAIPalm2 example_options) = ''VertexAI(text-bison)''
   \<and> resource_id (VertexAIPalm2 example_options) \<noteq> model (VertexAIPalm2 example_options)
   \<and> map executor (executor_calls
       (snd (snd (sample example_provider example_rate_conversion example_environ [0]
          (VertexAIPalm2 example_options) [text_prompt ''Hello''] world_at_import)))) =
     [''VertexAI(text-bison)'']"
proof -
  let ?S = "VertexAIPalm2 example_options"
  have a: "api_initialized example_environ ?S world_at_import =
      (Inr True, ?S\<lparr>api_initialized_cache := Some True\<rparr>,
       world_at_import\<lparr>vertexai_init_calls := [(''demo-project'', ''us-central1'', None)]\<rparr>)"
    by (simp add: api_initialized_def getter_cases falsy_cases py_or_cases example_environ_def
        VertexAIPalm2_def VertexAI_defaults_def world_at_import_def)
  have k: "max_concurrency example_rate_conversion (?S\<lparr>api_initialized_cache := Some True\<rparr>) = Inr 26"
    by (simp add: max_concurrency_def registry_lookup_def SUPPORTED_MODELS_AND_SETTINGS_def
        example_rate_conversion_def VertexAIPalm2_def VertexAI_defaults_def)
  have r: "resource_id (?S\<lparr>api_initialized_cache := Some True\<rparr>) = ''VertexAI(text-bison)''"
    "resource_id ?S = ''VertexAI(text-bison)''" "model ?S = ''text-bison''"
    by (simp_all add: resource_id_def model_id_def VertexAIPalm2_def VertexAI_defaults_def)
  have e: "executor_calls world_at_import = []" by (simp add: world_at_import_def)
  have "executor_calls
       (snd (snd (sample example_provider example_rate_conversion example_environ [0]
          ?S [text_prompt ''Hello''] world_at_import))) =
     [\<lparr>executor = ''VertexAI(text-bison)'', max_workers = 26, retry_on_errors = None, n_items = 1\<rparr>]"
    by (simp add: sample_def a k r sample_single_cache_irrelevant split_beta
        concurrent_execute_call_recorded e)
  with r show ?thesis by simp
qed

subsection \<open>Prompt translation\<close>

text \<open>
  C2. Content building passes every text chunk through unchanged and turns every image
  chunk into the provider's image wrapper when the adapter is multimodal. The chunks it
  does not support are the image chunks of an adapter that is not multimodal and the
  chunks of any other kind: when the prompt has one, the result is the
  unsupported-modality error that carries the first of them.
\<close>

theorem content_from_message_policy:
  "content_from_message self prompt =
    (case find (\<lambda>c. case c of Str s \<Rightarrow> False | LfImage b \<Rightarrow> \<not> multimodal self
                            | Other_modality k b \<Rightarrow> True) (chunk prompt) of
       None \<Rightarrow> Inr (concat (map (\<lambda>c. case c of Str s \<Rightarrow> [Text s] | LfImage b \<Rightarrow> [SDK_Image b]
                            | Other_modality k b \<Rightarrow> []) (chunk prompt)))
     | Some c \<Rightarrow> Inl (ValueError (Unsupported_modality c)))"
  by (simp add: content_from_message_def content_loop_find split: option.splits)

text \<open>The same prompt with an image fails without multimodal support and is built with
  it; a chunk of another kind fails even then.\<close>

theorem content_from_message_policy_witness:
  "content_from_message (VertexAIGeminiPro1 example_options) image_prompt
     = Inl (ValueError (Unsupported_modality (LfImage ''png'')))
   \<and> content_from_message (VertexAIGeminiPro1Vision example_options) image_prompt
     = Inr [Text ''Describe '', SDK_Image ''png'']
   \<and> content_from_message (VertexAIGeminiPro1Vision example_options)
       \<lparr>message_text = ''Hear <<[[audio]]>>'',
        chunk = [Str ''Hear '', Other_modality ''Audio'' ''wav'', LfImage ''png'']\<rparr>
     = Inl (ValueError (Unsupported_modality (Other_modality ''Audio'' ''wav'')))"
  using content_from_message_policy [of "VertexAIGeminiPro1 example_options" image_prompt]
    content_from_message_policy [of "VertexAIGeminiPro1Vision example_options" image_prompt]
    content_from_message_policy [of "VertexAIGeminiPro1Vision example_options"
      "\<lparr>message_text = ''Hear <<[[audio]]>>'',
        chunk = [Str ''Hear '', Other_modality ''Audio'' ''wav'', LfImage ''png'']\<rparr>"]
  by (simp add: VertexAIGeminiPro1_def VertexAIGeminiPro1Vision_def VertexAI_defaults_def
      image_prompt_def)

subsection \<open>Lazy initialization\<close>

text \<open>
  C4. On an instance with nothing cached, initialization takes the project from the
  field, or from \<open>VERTEXAI_PROJECT\<close> when the field is \<open>None\<close> or empty, and the location
  from the field, or from \<open>VERTEXAI_LOCATION\<close> likewise. If the project is still missing
  it raises the error whose message names \<open>project\<close> and \<open>VERTEXAI_PROJECT\<close>; otherwise,
  if the location is missing, the error whose message names \<open>location\<close> and
  \<open>VERTEXAI_LOCATION\<close>. In both cases the instance and the world are left as they were:
  the SDK has not been called. Otherwise the SDK is initialized with the two values and
  the credentials, and \<open>True\<close> is cached.
\<close>

theorem api_initialized_resolution:
  assumes "api_initialized_cache self = None"
  shows
    "(let p = (if project self = None \<or> project self = Some [] then env ''VERTEXAI_PROJECT''
               else project self);
          l = (if location self = None \<or> location self = Some [] then env ''VERTEXAI_LOCATION''
               else location self)
      in (if p = None \<or> p = Some []
          then api_initialized env self w = (Inl (ValueError (Literal project_message)), self, w)
          else if l = None \<or> l = Some []
          then api_initialized env self w = (Inl (ValueError (Literal location_message)), self, w)
          else api_initialized env self w =
                 (Inr True, self\<lparr>api_initialized_cache := Some True\<rparr>,
                  w\<lparr>vertexai_init_calls := vertexai_init_calls w @ [(the p, the l, credentials self)]\<rparr>)))
     \<and> sublist ''`project`'' project_message
     \<and> sublist ''`VERTEXAI_PROJECT`'' project_message
     \<and> sublist ''`location`'' location_message
     \<and> sublist ''`VERTEXAI_LOCATION`'' location_message"
proof -
  have names: "sublist ''`project`'' project_message"
    "sublist ''`VERTEXAI_PROJECT`'' project_message"
    "sublist ''`location`'' location_message"
    "sublist ''`VERTEXAI_LOCATION`'' location_message"
    by (simp_all add: project_message_def location_message_def sublist_Cons_right)
  have "(let p = (if project self = None \<or> project self = Some [] then env ''VERTEXAI_PROJECT''
               else project self);
          l = (if location self = None \<or> location self = Some [] then env ''VERTEXAI_LOCATION''
               else location self)
      in (if p = None \<or> p = Some []
          then api_initialized env self w = (Inl (ValueError (Literal project_message)), self, w)
          else if l = None \<or> l = Some []
          then api_initialized env self w = (Inl (ValueError (Literal location_message)), self, w)
          else api_initialized env self w =
                 (Inr True, self\<lparr>api_initialized_cache := Some True\<rparr>,
                  w\<lparr>vertexai_init_calls := vertexai_init_calls w @ [(the p, the l, credentials self)]\<rparr>)))"
    using assms
    by (auto simp add: api_initialized_def api_initialized_getter_def py_or_cases Let_def
        split: option.splits)
  with names show ?thesis by simp
qed

text \<open>No project anywhere; a project in the environment but no location; a project in
  the field and a location in the environment.\<close>

theorem api_initialized_resolution_witness:
  "api_initialized Map.empty (VertexAIPalm2 example_options) world_at_import =
     (Inl (ValueError (Literal project_message)), VertexAIPalm2 example_options, world_at_import)
   \<and> api_initialized [''VERTEXAI_PROJECT'' \<mapsto> ''demo-project''] (VertexAIPalm2 example_options)
       world_at_import =
     (Inl (ValueError (Literal location_message)), VertexAIPalm2 example_options, world_at_import)
   \<and> api_initialized [''VERTEXAI_LOCATION'' \<mapsto> ''us-central1'']
       ((VertexAIPalm2 example_options)\<lparr>project := Some ''my-project''\<rparr>) world_at_import =
     (Inr True,
      (VertexAIPalm2 example_options)\<lparr>project := Some ''my-project'',
                                        api_initialized_cache := Some True\<rparr>,
      world_at_import\<lparr>vertexai_init_calls := [(''my-project'', ''us-central1'', None)]\<rparr>)"
proof -
  let ?S = "VertexAIPalm2 example_options"
  have c: "api_initialized_cache ?S = None"
    "api_initialized_cache (?S\<lparr>project := Some ''my-project''\<rparr>) = None"
    by (simp_all add: VertexAIPalm2_def VertexAI_defaults_def)
  have f: "project ?S = None" "location ?S = None" "credentials ?S = None"
    by (simp_all add: VertexAIPalm2_def VertexAI_defaults_def)
  have v: "vertexai_init_calls world_at_import = []" by (simp add: world_at_import_def)
  from api_initialized_resolution [OF c(1), of Map.empty world_at_import]
    api_initialized_resolution [OF c(1), of "[''VERTEXAI_PROJECT'' \<mapsto> ''demo-project'']"
      world_at_import]
    api_initialized_resolution [OF c(2), of "[''VERTEXAI_LOCATION'' \<mapsto> ''us-central1'']"
      world_at_import]
  show ?thesis by (simp add: f v Let_def)
qed

text \<open>
  C10. When initialization fails, nothing is cached: the instance and the world are as
  before, a sampling call on the instance fails with the same error and leaves both as
  before, and a later attempt on the same instance under an environment that supplies
  what was missing succeeds. When it succeeds, \<open>True\<close> is cached, and every later
  attempt returns it whatever the environment, without calling the SDK. When the
  project and the location are both missing, the error is the one that names the
  project.
\<close>

theorem failed_initialization_not_cached:
  assumes "api_initialized_cache self = None"
  shows
    "(\<forall>e self' w'. api_initialized env self w = (Inl e, self', w') \<longrightarrow>
        self' = self \<and> w' = w \<and> api_initialized_cache self' = None \<and>
        (\<forall>provider conv order prompts.
           sample provider conv env order self prompts w = (Inl e, self, w)) \<and>
        (\<forall>env2 w2.
           \<not> falsy (py_or (project self) (env2 ''VERTEXAI_PROJECT'')) \<and>
           \<not> falsy (py_or (location self) (env2 ''VERTEXAI_LOCATION'')) \<longrightarrow>
           fst (api_initialized env2 self' w2) = Inr True))
     \<and> (\<forall>v self' w'. api_initialized env self w = (Inr v, self', w') \<longrightarrow>
        v = True \<and> api_initialized_cache self' = Some True \<and>
        (\<forall>env3 w3. api_initialized env3 self' w3 = (Inr True, self', w3)))
     \<and> (falsy (py_or (project self) (env ''VERTEXAI_PROJECT'')) \<and>
        falsy (py_or (location self) (env ''VERTEXAI_LOCATION'')) \<longrightarrow>
        fst (api_initialized env self w) = Inl (ValueError (Literal project_message)))
     \<and> sublist ''`project`'' project_message
     \<and> \<not> sublist ''`location`'' project_message"
proof -
  have names: "sublist ''`project`'' project_message" "\<not> sublist ''`location`'' project_message"
    by (simp_all add: project_message_def sublist_Cons_right)
  have "(\<forall>e self' w'. api_initialized env self w = (Inl e, self', w') \<longrightarrow>
        self' = self \<and> w' = w \<and> api_initialized_cache self' = None \<and>
        (\<forall>provider conv order prompts.
           sample provider conv env order self prompts w = (Inl e, self, w)) \<and>
        (\<forall>env2 w2.
           \<not> falsy (py_or (project self) (env2 ''VERTEXAI_PROJECT'')) \<and>
           \<not> falsy (py_or (location self) (env2 ''VERTEXAI_LOCATION'')) \<longrightarrow>
           fst (api_initialized env2 self' w2) = Inr True))
     \<and> (\<forall>v self' w'. api_initialized env self w = (Inr v, self', w') \<longrightarrow>
        v = True \<and> api_initialized_cache self' = Some True \<and>
        (\<forall>env3 w3. api_initialized env3 self' w3 = (Inr True, self', w3)))
     \<and> (falsy (py_or (project self) (env ''VERTEXAI_PROJECT'')) \<and>
        falsy (py_or (location self) (env ''VERTEXAI_LOCATION'')) \<longrightarrow>
        fst (api_initialized env self w) = Inl (ValueError (Literal project_message)))"
    using assms
    by (auto simp add: api_initialized_def getter_cases sample_def split: if_splits)
  with names show ?thesis by blast
qed

text \<open>An instance with neither field under an empty environment, then under one with
  both variables, then the initialized instance under the empty environment again.\<close>

theorem failed_initialization_not_cached_witness:
  "api_initialized Map.empty (VertexAIPalm2 example_options) world_at_import =
     (Inl (ValueError (Literal project_message)), VertexAIPalm2 example_options, world_at_import)
   \<and> sample example_provider example_rate_conversion Map.empty [0]
       (VertexAIPalm2 example_options) [text_prompt ''Hello''] world_at_import =
     (Inl (ValueError (Literal project_message)), VertexAIPalm2 example_options, world_at_import)
   \<and> fst (api_initialized example_environ (VertexAIPalm2 example_options) world_at_import) = Inr True
   \<and> api_initialized Map.empty
       ((VertexAIPalm2 example_options)\<lparr>api_initialized_cache := Some True\<rparr>) world_at_import =
     (Inr True, (VertexAIPalm2 example_options)\<lparr>api_initialized_cache := Some True\<rparr>,
      world_at_import)"
proof -
  let ?S = "VertexAIPalm2 example_options"
  let ?w1 = "world_at_import\<lparr>vertexai_init_calls := [(''demo-project'', ''us-central1'', None)]\<rparr>"
  have c: "api_initialized_cache ?S = None"
    by (simp add: VertexAIPalm2_def VertexAI_defaults_def)
  have f: "api_initialized Map.empty ?S world_at_import =
     (Inl (ValueError (Literal project_message)), ?S, world_at_import)"
    by (simp add: api_initialized_def getter_cases c falsy_cases py_or_cases
        VertexAIPalm2_def VertexAI_defaults_def)
  have r: "\<not> falsy (py_or (project ?S) (example_environ ''VERTEXAI_PROJECT'')) \<and>
           \<not> falsy (py_or (location ?S) (example_environ ''VERTEXAI_LOCATION''))"
    by (simp add: falsy_cases py_or_cases example_environ_def VertexAIPalm2_def
        VertexAI_defaults_def)
  have g: "api_initialized example_environ ?S world_at_import =
     (Inr True, ?S\<lparr>api_initialized_cache := Some True\<rparr>, ?w1)"
    by (simp add: api_initialized_def getter_cases c falsy_cases py_or_cases example_environ_def
        VertexAIPalm2_def VertexAI_defaults_def world_at_import_def)
  note t = failed_initialization_not_cached [OF c, of Map.empty world_at_import]
  note u = failed_initialization_not_cached [OF c, of example_environ world_at_import]
  from t f have "sample example_provider example_rate_conversion Map.empty [0]
       ?S [text_prompt ''Hello''] world_at_import =
     (Inl (ValueError (Literal project_message)), ?S, world_at_import)"
    by blast
  moreover from t f r
  have "fst (api_initialized example_environ ?S world_at_import) = Inr True"
    by blast
  moreover from u g
  have "api_initialized Map.empty (?S\<lparr>api_initialized_cache := Some True\<rparr>) world_at_import =
     (Inr True, ?S\<lparr>api_initialized_cache := Some True\<rparr>, world_at_import)"
    by blast
  ultimately show ?thesis using f by simp
qed

subsection \<open>Sampling one prompt\<close>

text \<open>
  C5. When the sampling options ask for more than one sample, sampling a prompt raises
  the error for \<open>n\<close> and leaves the world as it was: no handle has been taken from the
  hub or built, and no request has been sent.
\<close>

theorem more_than_one_sample_rejected:
  assumes "1 < n (sampling_options self)"
  shows "sample_single provider self prompt w =
           (Inl (ValueError (N_not_supported (n (sampling_options self)))), w)
         \<and> VERTEXAI_MODEL_HUB (snd (sample_single provider self prompt w)) = VERTEXAI_MODEL_HUB w
         \<and> constructed (snd (sample_single provider self prompt w)) = constructed w
         \<and> requests (snd (sample_single provider self prompt w)) = requests w"
  using assms by (simp add: sample_single_def)

theorem more_than_one_sample_rejected_witness:
  "sample_single example_provider (VertexAIGeminiPro1 (example_options\<lparr>n := 3\<rparr>))
     (text_prompt ''Hello'') world_at_import =
   (Inl (ValueError (N_not_supported 3)), world_at_import)
   \<and> requests (snd (sample_single example_provider (VertexAIGeminiPro1 (example_options\<lparr>n := 3\<rparr>))
       (text_prompt ''Hello'') world_at_import)) = []"
proof -
  have h: "1 < n (sampling_options (VertexAIGeminiPro1 (example_options\<lparr>n := 3\<rparr>)))"
    "n (sampling_options (VertexAIGeminiPro1 (example_options\<lparr>n := 3\<rparr>))) = 3"
    by (simp_all add: VertexAIGeminiPro1_def VertexAI_defaults_def)
  have r: "requests world_at_import = []" by (simp add: world_at_import_def)
  from more_than_one_sample_rejected [OF h(1), of example_provider "text_prompt ''Hello''"
      world_at_import]
  show ?thesis by (simp add: h(2) r)
qed

text \<open>
  C6. When the provider answers, the result holds exactly one sample, the answer's text
  with score 0. On the generative path it also holds a usage record with the prompt,
  candidates and total token counts of the answer's usage metadata; on the
  text-completion path it holds no usage record.
\<close>

theorem response_translation:
  "(\<forall>m hub' objs' c r.
      get_generative_model (VERTEXAI_MODEL_HUB w) (model self) (constructed w) = (m, hub', objs') \<and>
      content_from_message self prompt = Inr c \<and>
      generate_content provider (handle_model m) c (generation_config (sampling_options self)) = Inr r
      \<longrightarrow>
      fst (sample_generative_model provider self prompt w) =
        Inr \<lparr>samples = [\<lparr>response = AIMessage (response_text r), score = 0\<rparr>],
             usage = Some \<lparr>prompt_tokens = prompt_token_count (usage_metadata r),
                           completion_tokens = candidates_token_count (usage_metadata r),
                           total_tokens = total_token_count (usage_metadata r)\<rparr>\<rparr>)
   \<and> (\<forall>m hub' objs' r.
      get_text_generation_model (VERTEXAI_MODEL_HUB w) (model self) (constructed w) = (m, hub', objs') \<and>
      predict provider (handle_model m) (message_text prompt)
        \<lparr>po_temperature = temperature (sampling_options self),
         po_top_k = top_k (sampling_options self),
         po_top_p = top_p (sampling_options self),
         po_max_output_tokens = max_tokens (sampling_options self),
         po_stop_sequences = stop (sampling_options self)\<rparr> = Inr r
      \<longrightarrow>
      fst (sample_text_generation_model provider self prompt w) =
        Inr \<lparr>samples = [\<lparr>response = AIMessage (prediction_text r), score = 0\<rparr>], usage = None\<rparr>)"
  by (simp add: sample_generative_model_def sample_text_generation_model_def Let_def
      generation_response_to_message_def default_usage_def)

theorem response_translation_witness:
  "fst (sample_generative_model example_provider (VertexAIGeminiPro1Vision example_options)
          image_prompt world_at_import) =
     Inr \<lparr>samples = [\<lparr>response = AIMessage ''Describe <image>'', score = 0\<rparr>],
          usage = Some \<lparr>prompt_tokens = 2, completion_tokens = 1, total_tokens = 3\<rparr>\<rparr>
   \<and> fst (sample_text_generation_model example_provider (VertexAIPalm2 example_options)
          (text_prompt ''Hello'') world_at_import) =
     Inr \<lparr>samples = [\<lparr>response = AIMessage ''echo: Hello'', score = 0\<rparr>], usage = None\<rparr>"
proof -
  let ?G = "VertexAIGeminiPro1Vision example_options"
  let ?P = "VertexAIPalm2 example_options"
  let ?g = "get_generative_model (VERTEXAI_MODEL_HUB world_at_import) (model ?G)
              (constructed world_at_import)"
  let ?t = "get_text_generation_model (VERTEXAI_MODEL_HUB world_at_import) (model ?P)
              (constructed world_at_import)"
  let ?r = "\<lparr>response_text = ''Describe <image>'',
             usage_metadata = \<lparr>prompt_token_count = 2, candidates_token_count = 1,
                               total_token_count = 3\<rparr>\<rparr>"
  let ?q = "\<lparr>prediction_text = ''echo: Hello''\<rparr>"
  have g: "handle_model (fst ?g) = ''gemini-1.0-pro-vision''"
    by (simp add: get_generative_model_def world_at_import_def ModelHub_init_def Let_def
        VertexAIGeminiPro1Vision_def VertexAI_defaults_def)
  have t: "handle_model (fst ?t) = ''text-bison''"
    by (simp add: get_text_generation_model_def world_at_import_def ModelHub_init_def Let_def
        VertexAIPalm2_def VertexAI_defaults_def)
  have c: "content_from_message ?G image_prompt = Inr [Text ''Describe '', SDK_Image ''png'']"
    by (simp add: content_from_message_def content_of_chunk_def image_prompt_def
        VertexAIGeminiPro1Vision_def VertexAI_defaults_def)
  have a: "generate_content example_provider (handle_model (fst ?g))
             [Text ''Describe '', SDK_Image ''png''] (generation_config (sampling_options ?G)) = Inr ?r"
    by (simp add: example_provider_def)
  have b: "predict example_provider (handle_model (fst ?t)) (message_text (text_prompt ''Hello''))
        \<lparr>po_temperature = temperature (sampling_options ?P),
         po_top_k = top_k (sampling_options ?P),
         po_top_p = top_p (sampling_options ?P),
         po_max_output_tokens = max_tokens (sampling_options ?P),
         po_stop_sequences = stop (sampling_options ?P)\<rparr> = Inr ?q"
    by (simp add: example_provider_def text_prompt_def)
  note u = response_translation [where w = world_at_import and provider = example_provider]
  from u [where self = ?G and prompt = image_prompt, THEN conjunct1, rule_format,
      of "fst ?g" "fst (snd ?g)" "snd (snd ?g)" "[Text ''Describe '', SDK_Image ''png'']" ?r] c a
  have one: "fst (sample_generative_model example_provider ?G image_prompt world_at_import) =
     Inr \<lparr>samples = [\<lparr>response = AIMessage ''Describe <image>'', score = 0\<rparr>],
          usage = Some \<lparr>prompt_tokens = 2, completion_tokens = 1, total_tokens = 3\<rparr>\<rparr>"
    by simp
  from u [where self = ?P and prompt = "text_prompt ''Hello''", THEN conjunct2, rule_format,
      of "fst ?t" "fst (snd ?t)" "snd (snd ?t)" ?q] b
  have two: "fst (sample_text_generation_model example_provider ?P (text_prompt ''Hello'')
       world_at_import) =
     Inr \<lparr>samples = [\<lparr>response = AIMessage ''echo: Hello'', score = 0\<rparr>], usage = None\<rparr>"
    by simp
  from one two show ?thesis by simp
qed

text \<open>
  C7. For a model the constructor accepts, the registry has an entry whose api family is
  \<open>gemini\<close> or \<open>palm\<close>; when at most one sample is asked for, sampling a prompt is the
  generative path for \<open>gemini\<close> and the text-completion path for \<open>palm\<close>; and the error
  for an unsupported api family is never the outcome.
\<close>

theorem dispatch_by_api_family:
  assumes "accepts_model (model self)"
  shows "\<exists>s. registry_lookup (model self) = Inr s \<and> (api s = ''gemini'' \<or> api s = ''palm'') \<and>
           (n (sampling_options self) \<le> 1 \<longrightarrow>
              sample_single provider self prompt w =
                (if api s = ''gemini'' then sample_generative_model provider self prompt w
                 else sample_text_generation_model provider self prompt w)) \<and>
           (\<forall>a. fst (sample_single provider self prompt w) \<noteq> Inl (ValueError (Unsupported_API a)))"
proof -
  from registry_entry [OF assms] obtain s where
    s: "map_of SUPPORTED_MODELS_AND_SETTINGS (model self) = Some s"
    and a: "api s = ''gemini'' \<or> api s = ''palm''" by blast
  have l: "registry_lookup (model self) = Inr s" by (simp add: registry_lookup_def s)
  have g: "\<And>a. fst (sample_generative_model provider self prompt w) \<noteq> Inl (ValueError (Unsupported_API a))"
    by (auto simp add: sample_generative_model_def Let_def content_from_message_def
        content_loop_find split: prod.splits sum.splits option.splits)
  have t: "\<And>a. fst (sample_text_generation_model provider self prompt w) \<noteq> Inl (ValueError (Unsupported_API a))"
    by (auto simp add: sample_text_generation_model_def Let_def split: prod.splits sum.splits)
  show ?thesis
    using a l g t by (auto simp add: sample_single_def)
qed

theorem dispatch_by_api_family_witness:
  "registry_lookup ''text-bison'' = Inr \<lparr>api = ''palm'', rpm = 1600\<rparr>
   \<and> sample_single example_provider (VertexAIPalm2 example_options) (text_prompt ''Hello'')
       world_at_import =
     sample_text_generation_model example_provider (VertexAIPalm2 example_options)
       (text_prompt ''Hello'') world_at_import
   \<and> registry_lookup ''gemini-1.0-pro'' = Inr \<lparr>api = ''gemini'', rpm = 300\<rparr>
   \<and> sample_single example_provider (VertexAIGeminiPro1 example_options) (text_prompt ''Hello'')
       world_at_import =
     sample_generative_model example_provider (VertexAIGeminiPro1 example_options)
       (text_prompt ''Hello'') world_at_import"
proof -
  let ?P = "VertexAIPalm2 example_options"
  let ?G = "VertexAIGeminiPro1 example_options"
  have m: "model ?P = ''text-bison''" "model ?G = ''gemini-1.0-pro''"
    "n (sampling_options ?P) \<le> 1" "n (sampling_options ?G) \<le> 1"
    by (simp_all add: VertexAIPalm2_def VertexAIGeminiPro1_def VertexAI_defaults_def
        example_options_def)
  have a: "accepts_model (model ?P)" "accepts_model (model ?G)"
    by (simp_all add: m accepts_model_def model_candidates_def SUPPORTED_MODELS_AND_SETTINGS_def)
  have l: "registry_lookup ''text-bison'' = Inr \<lparr>api = ''palm'', rpm = 1600\<rparr>"
    "registry_lookup ''gemini-1.0-pro'' = Inr \<lparr>api = ''gemini'', rpm = 300\<rparr>"
    by (simp_all add: registry_lookup_def SUPPORTED_MODELS_AND_SETTINGS_def)
  from dispatch_by_api_family [OF a(1), of example_provider "text_prompt ''Hello''" world_at_import]
    dispatch_by_api_family [OF a(2), of example_provider "text_prompt ''Hello''" world_at_import]
  show ?thesis by (auto simp add: m l)
qed

subsection \<open>The concurrency bound\<close>

text \<open>
  C9. For a model the constructor accepts, the concurrency bound is the rate conversion
  applied to the requests per minute of the model's registry entry and to a token rate
  of zero. It is a function of the model alone: instances with the same model have the
  same bound, and nothing in the state enters it. The registry's rate is positive, and
  the bound is positive for a conversion that keeps the contract.
\<close>

theorem max_concurrency_from_registry:
  assumes "accepts_model (model self)"
  shows "\<exists>s. map_of SUPPORTED_MODELS_AND_SETTINGS (model self) = Some s \<and>
           max_concurrency rate_to_max_concurrency self = Inr (rate_to_max_concurrency (rpm s) 0) \<and>
           0 < rpm s \<and>
           (\<forall>other. model other = model self \<longrightarrow>
              max_concurrency rate_to_max_concurrency other = max_concurrency rate_to_max_concurrency self) \<and>
           (rate_conversion_contract rate_to_max_concurrency \<longrightarrow>
              0 < rate_to_max_concurrency (rpm s) 0)"
proof -
  from registry_entry [OF assms] obtain s where
    s: "map_of SUPPORTED_MODELS_AND_SETTINGS (model self) = Some s" and r: "0 < rpm s" by blast
  show ?thesis
    using s r by (auto simp add: max_concurrency_def registry_lookup_def rate_conversion_contract_def)
qed

theorem max_concurrency_from_registry_witness:
  "max_concurrency example_rate_conversion (VertexAIPalm2 example_options) = Inr 26
   \<and> max_concurrency example_rate_conversion (VertexAIGeminiPro1_5 example_options) = Inr 1
   \<and> max_concurrency example_rate_conversion
       ((VertexAIPalm2 example_options)\<lparr>project := Some ''other''\<rparr>) = Inr 26
   \<and> rate_conversion_contract example_rate_conversion"
proof -
  let ?P = "VertexAIPalm2 example_options"
  let ?G = "VertexAIGeminiPro1_5 example_options"
  have m: "model ?P = ''text-bison''" "model ?G = ''gemini-1.5-pro-preview-0409''"
    by (simp_all add: VertexAIPalm2_def VertexAIGeminiPro1_5_def VertexAI_defaults_def)
  have a: "accepts_model (model ?P)" "accepts_model (model ?G)"
    by (simp_all add: m accepts_model_def model_candidates_def SUPPORTED_MODELS_AND_SETTINGS_def)
  have l: "map_of SUPPORTED_MODELS_AND_SETTINGS ''text-bison'' = Some \<lparr>api = ''palm'', rpm = 1600\<rparr>"
    "map_of SUPPORTED_MODELS_AND_SETTINGS ''gemini-1.5-pro-preview-0409'' =
       Some \<lparr>api = ''gemini'', rpm = 5\<rparr>"
    by (simp_all add: SUPPORTED_MODELS_AND_SETTINGS_def)
  have k: "rate_conversion_contract example_rate_conversion"
    by (simp add: rate_conversion_contract_def example_rate_conversion_def max_def)
  from max_concurrency_from_registry [OF a(1), of example_rate_conversion]
  obtain s where s: "map_of SUPPORTED_MODELS_AND_SETTINGS (model ?P) = Some s"
    and b: "max_concurrency example_rate_conversion ?P = Inr (example_rate_conversion (rpm s) 0)"
    and o: "\<forall>other. model other = model ?P \<longrightarrow>
              max_concurrency example_rate_conversion other = max_concurrency example_rate_conversion ?P"
    by blast
  from s have "s = \<lparr>api = ''palm'', rpm = 1600\<rparr>" by (simp add: m l)
  with b have one: "max_concurrency example_rate_conversion ?P = Inr 26"
    by (simp add: example_rate_conversion_def)
  from o have "model (?P\<lparr>project := Some ''other''\<rparr>) = model ?P \<longrightarrow>
      max_concurrency example_rate_conversion (?P\<lparr>project := Some ''other''\<rparr>) =
      max_concurrency example_rate_conversion ?P" by (rule spec)
  with one have three: "max_concurrency example_rate_conversion (?P\<lparr>project := Some ''other''\<rparr>) = Inr 26"
    by simp
  from max_concurrency_from_registry [OF a(2), of example_rate_conversion]
  obtain s' where s': "map_of SUPPORTED_MODELS_AND_SETTINGS (model ?G) = Some s'"
    and b': "max_concurrency example_rate_conversion ?G = Inr (example_rate_conversion (rpm s') 0)"
    by blast
  from s' have "s' = \<lparr>api = ''gemini'', rpm = 5\<rparr>" by (simp add: m l)
  with b' have two: "max_concurrency example_rate_conversion ?G = Inr 1"
    by (simp add: example_rate_conversion_def)
  from one two three k show ?thesis by simp
qed

subsection \<open>The model hub\<close>

text \<open>
  C8. Once a get operation of the hub has returned a handle for a model id, the same
  operation for the same model id returns that same handle after any further sequence
  of calls on the hub, and leaves the hub and the objects built as they are: the entry
  is never dropped and nothing is built again. From the hub as it is at import, no
  sequence of calls builds more than one handle of a kind for a model id.
\<close>

theorem model_hub_memoizes:
  "(\<forall>h hub1 objs1 calls.
      get_generative_model hub mid objs = (h, hub1, objs1) \<longrightarrow>
      get_generative_model (fst (hub_calls calls (hub1, objs1))) mid (snd (hub_calls calls (hub1, objs1)))
        = (h, hub_calls calls (hub1, objs1)))
   \<and> (\<forall>h hub1 objs1 calls.
      get_text_generation_model hub mid objs = (h, hub1, objs1) \<longrightarrow>
      get_text_generation_model (fst (hub_calls calls (hub1, objs1))) mid (snd (hub_calls calls (hub1, objs1)))
        = (h, hub_calls calls (hub1, objs1)))
   \<and> (\<forall>calls. length (filter (generative_for mid) (snd (hub_calls calls (ModelHub_init, [])))) \<le> 1
            \<and> length (filter (text_generation_for mid) (snd (hub_calls calls (ModelHub_init, [])))) \<le> 1)"
proof (intro conjI allI impI)
  fix h hub1 objs1 calls
  assume "get_generative_model hub mid objs = (h, hub1, objs1)"
  then have "generative_model_cache hub1 mid = Some h" by (rule get_generative_model_caches)
  with hub_calls_keep [of "(hub1, objs1)" mid h calls]
  have "generative_model_cache (fst (hub_calls calls (hub1, objs1))) mid = Some h" by simp
  then show "get_generative_model (fst (hub_calls calls (hub1, objs1))) mid
      (snd (hub_calls calls (hub1, objs1))) = (h, hub_calls calls (hub1, objs1))"
    by (simp add: get_generative_model_cached)
next
  fix h hub1 objs1 calls
  assume "get_text_generation_model hub mid objs = (h, hub1, objs1)"
  then have "text_generation_model_cache hub1 mid = Some h"
    by (rule get_text_generation_model_caches)
  with hub_calls_keep [of "(hub1, objs1)" mid h calls]
  have "text_generation_model_cache (fst (hub_calls calls (hub1, objs1))) mid = Some h" by simp
  then show "get_text_generation_model (fst (hub_calls calls (hub1, objs1))) mid
      (snd (hub_calls calls (hub1, objs1))) = (h, hub_calls calls (hub1, objs1))"
    by (simp add: get_text_generation_model_cached)
next
  fix calls
  from built_once_calls [OF built_once_init, of calls]
  show "length (filter (generative_for mid) (snd (hub_calls calls (ModelHub_init, [])))) \<le> 1"
    by (simp add: built_once_def)
next
  fix calls
  from built_once_calls [OF built_once_init, of calls]
  show "length (filter (text_generation_for mid) (snd (hub_calls calls (ModelHub_init, [])))) \<le> 1"
    by (simp add: built_once_def)
qed

text \<open>The first handle for \<open>gemini-1.0-pro\<close> is the object 0; after a text model and the
  same model again have been asked for, the hub still answers with the object 0, and
  two objects have been built in all.\<close>

theorem model_hub_memoizes_witness:
  "fst (get_generative_model ModelHub_init ''gemini-1.0-pro'' []) =
     GenerativeModel 0 ''gemini-1.0-pro''
   \<and> fst (get_generative_model
       (fst (hub_calls [Get_text_generation_model ''text-bison'', Get_generative_model ''gemini-1.0-pro'']
              (snd (get_generative_model ModelHub_init ''gemini-1.0-pro'' []))))
       ''gemini-1.0-pro''
       (snd (hub_calls [Get_text_generation_model ''text-bison'', Get_generative_model ''gemini-1.0-pro'']
              (snd (get_generative_model ModelHub_init ''gemini-1.0-pro'' []))))) =
     GenerativeModel 0 ''gemini-1.0-pro''
   \<and> snd (hub_calls [Get_text_generation_model ''text-bison'', Get_generative_model ''gemini-1.0-pro'']
              (snd (get_generative_model ModelHub_init ''gemini-1.0-pro'' []))) =
     [GenerativeModel 0 ''gemini-1.0-pro'', TextGenerationModel 1 ''text-bison'']"
proof -
  let ?first = "get_generative_model ModelHub_init ''gemini-1.0-pro'' []"
  let ?calls = "[Get_text_generation_model ''text-bison'', Get_generative_model ''gemini-1.0-pro'']"
  have f: "fst ?first = GenerativeModel 0 ''gemini-1.0-pro''"
    by (simp add: get_generative_model_def ModelHub_init_def Let_def)
  have e: "?first = (GenerativeModel 0 ''gemini-1.0-pro'', fst (snd ?first), snd (snd ?first))"
    by (simp add: f [symmetric])
  have o: "snd (hub_calls ?calls (snd ?first)) =
      [GenerativeModel 0 ''gemini-1.0-pro'', TextGenerationModel 1 ''text-bison'']"
    by (simp add: hub_calls_def get_generative_model_def get_text_generation_model_def
        ModelHub_init_def Let_def)
  from model_hub_memoizes [where hub = ModelHub_init and mid = "''gemini-1.0-pro''"
      and objs = "[]", THEN conjunct1, rule_format, OF e, of ?calls]
  have "fst (get_generative_model (fst (hub_calls ?calls (snd ?first))) ''gemini-1.0-pro''
          (snd (hub_calls ?calls (snd ?first)))) = GenerativeModel 0 ''gemini-1.0-pro''"
    by simp
  with f o show ?thesis by simp
qed

end
